theory Spec2Isabelle
  imports Main "HOL-Library.Sublist"
begin

section \<open>JavaScript values and string primitives\<close>

text \<open>
  The front end is TypeScript running on a JavaScript engine. Strings are modelled as
  \<^typ>\<open>string\<close>, one \<^typ>\<open>char\<close> per UTF-16 code unit below 256 (Latin-1), which is
  where \<^verbatim>\<open>trim\<close> and \<^verbatim>\<open>toLowerCase\<close> are defined here: the white space and line
  terminators of ECMAScript in that range, and the upper-case letters A-Z and
  U+00C0-U+00DE (without the multiplication sign U+00D7).
\<close>

definition is_js_space :: "char \<Rightarrow> bool" where
  "is_js_space c =
     (c \<in> set [CHR 0x09, CHR 0x0A, CHR 0x0B, CHR 0x0C, CHR 0x0D, CHR 0x20, CHR 0xA0])"

definition upper_chars :: string where
  "upper_chars = ''ABCDEFGHIJKLMNOPQRSTUVWXYZ'' @
     [CHR 0xC0, CHR 0xC1, CHR 0xC2, CHR 0xC3, CHR 0xC4, CHR 0xC5, CHR 0xC6, CHR 0xC7,
      CHR 0xC8, CHR 0xC9, CHR 0xCA, CHR 0xCB, CHR 0xCC, CHR 0xCD, CHR 0xCE, CHR 0xCF,
      CHR 0xD0, CHR 0xD1, CHR 0xD2, CHR 0xD3, CHR 0xD4, CHR 0xD5, CHR 0xD6, CHR 0xD8,
      CHR 0xD9, CHR 0xDA, CHR 0xDB, CHR 0xDC, CHR 0xDD, CHR 0xDE]"

definition lower_chars :: string where
  "lower_chars = ''abcdefghijklmnopqrstuvwxyz'' @
     [CHR 0xE0, CHR 0xE1, CHR 0xE2, CHR 0xE3, CHR 0xE4, CHR 0xE5, CHR 0xE6, CHR 0xE7,
      CHR 0xE8, CHR 0xE9, CHR 0xEA, CHR 0xEB, CHR 0xEC, CHR 0xED, CHR 0xEE, CHR 0xEF,
      CHR 0xF0, CHR 0xF1, CHR 0xF2, CHR 0xF3, CHR 0xF4, CHR 0xF5, CHR 0xF6, CHR 0xF8,
      CHR 0xF9, CHR 0xFA, CHR 0xFB, CHR 0xFC, CHR 0xFD, CHR 0xFE]"

definition lower_char :: "char \<Rightarrow> char" where
  "lower_char c = (case map_of (zip upper_chars lower_chars) c of None \<Rightarrow> c | Some l \<Rightarrow> l)"

definition toLowerCase :: "string \<Rightarrow> string" where
  "toLowerCase s = map lower_char s"

definition trim :: "string \<Rightarrow> string" where
  "trim s = rev (dropWhile is_js_space (rev (dropWhile is_js_space s)))"

text \<open>\<^verbatim>\<open>s.includes(p)\<close>: \<open>p\<close> occurs in \<open>s\<close> as a contiguous run.\<close>

definition js_includes :: "string \<Rightarrow> string \<Rightarrow> bool" where
  "js_includes s p = sublist p s"

text \<open>The decimal text of a non-negative integer, as a template literal prints it.\<close>

definition digit :: "nat \<Rightarrow> char" where
  "digit d = ''0123456789'' ! d"

fun decimal :: "nat \<Rightarrow> string" where
  "decimal n = (if 10 \<le> n then decimal (n div 10) @ [digit (n mod 10)] else [digit n])"

declare decimal.simps [simp del]

text \<open>
  A value received from the server is any JSON value, or \<^verbatim>\<open>undefined\<close> where a field is
  absent. An object is the list of its own properties; the first binding of a name is
  the property's value. Numbers are only ever tested for being zero here.
\<close>

datatype jsval =
    JUndefined
  | JNull
  | JBool bool
  | JNum int
  | JStr string
  | JArr "jsval list"
  | JObj "(string \<times> jsval) list"

datatype js_error = TypeError

fun truthy :: "jsval \<Rightarrow> bool" where
  "truthy JUndefined = False"
| "truthy JNull = False"
| "truthy (JBool b) = b"
| "truthy (JNum n) = (n \<noteq> 0)"
| "truthy (JStr s) = (s \<noteq> [])"
| "truthy (JArr xs) = True"
| "truthy (JObj kvs) = True"

fun nullish :: "jsval \<Rightarrow> bool" where
  "nullish JUndefined = True"
| "nullish JNull = True"
| "nullish v = False"

text \<open>
  \<^verbatim>\<open>v.name\<close> for a name that no built-in prototype defines (\<^verbatim>\<open>tasks\<close>, \<^verbatim>\<open>answers\<close>,
  \<^verbatim>\<open>answer\<close>): a TypeError on \<^verbatim>\<open>undefined\<close> and \<^verbatim>\<open>null\<close>, the own property of an object,
  \<^verbatim>\<open>undefined\<close> on every other value.
\<close>

fun js_prop :: "jsval \<Rightarrow> string \<Rightarrow> js_error + jsval" where
  "js_prop JUndefined name = Inl TypeError"
| "js_prop JNull name = Inl TypeError"
| "js_prop (JObj kvs) name =
     Inr (case map_of kvs name of None \<Rightarrow> JUndefined | Some v \<Rightarrow> v)"
| "js_prop v name = Inr JUndefined"

text \<open>\<^verbatim>\<open>v[i]\<close> for a non-negative integer index.\<close>

fun js_index :: "jsval \<Rightarrow> nat \<Rightarrow> js_error + jsval" where
  "js_index JUndefined i = Inl TypeError"
| "js_index JNull i = Inl TypeError"
| "js_index (JArr xs) i = Inr (if i < length xs then xs ! i else JUndefined)"
| "js_index (JStr s) i = Inr (if i < length s then JStr [s ! i] else JUndefined)"
| "js_index (JObj kvs) i =
     Inr (case map_of kvs (decimal i) of None \<Rightarrow> JUndefined | Some v \<Rightarrow> v)"
| "js_index v i = Inr JUndefined"

text \<open>
  \<^verbatim>\<open>v.trim().toLowerCase()\<close> on a value that is neither \<^verbatim>\<open>undefined\<close> nor \<^verbatim>\<open>null\<close>:
  only a string has a \<^verbatim>\<open>trim\<close> method, calling it on anything else is a TypeError.
\<close>

fun js_trim_toLowerCase :: "jsval \<Rightarrow> js_error + string" where
  "js_trim_toLowerCase (JStr s) = Inr (toLowerCase (trim s))"
| "js_trim_toLowerCase v = Inl TypeError"

section \<open>The exam and the score (ExamClient.tsx)\<close>

record question =
  question_number :: nat

record task =
  task_type :: string
  task_key :: "string option"
  instruction :: "string option"
  questions :: "question list"

record exam =
  tasks :: "task list"

text \<open>The key \<^verbatim>\<open>`q-${qNum}`\<close> under which a question's answer is kept.\<close>

definition qKey :: "nat \<Rightarrow> string" where
  "qKey qNum = ''q-'' @ decimal qNum"

text \<open>\<^verbatim>\<open>userAnswers[`q-${qNum}`]?.trim().toLowerCase()\<close>\<close>

definition userAns :: "(string \<rightharpoonup> string) \<Rightarrow> nat \<Rightarrow> string option" where
  "userAns userAnswers qNum =
     (case userAnswers (qKey qNum) of
        None \<Rightarrow> None
      | Some s \<Rightarrow> Some (toLowerCase (trim s)))"

text \<open>\<^verbatim>\<open>answers.tasks[tIdx]?.answers[qIdx]?.answer?.trim().toLowerCase()\<close>\<close>

definition correctAns :: "jsval \<Rightarrow> nat \<Rightarrow> nat \<Rightarrow> js_error + string option" where
  "correctAns ans tIdx qIdx =
     (case js_prop ans ''tasks'' of Inl e \<Rightarrow> Inl e | Inr ts \<Rightarrow>
      case js_index ts tIdx of Inl e \<Rightarrow> Inl e | Inr t \<Rightarrow>
      if nullish t then Inr None else
      case js_prop t ''answers'' of Inl e \<Rightarrow> Inl e | Inr as \<Rightarrow>
      case js_index as qIdx of Inl e \<Rightarrow> Inl e | Inr a \<Rightarrow>
      if nullish a then Inr None else
      case js_prop a ''answer'' of Inl e \<Rightarrow> Inl e | Inr v \<Rightarrow>
      if nullish v then Inr None else
      case js_trim_toLowerCase v of Inl e \<Rightarrow> Inl e | Inr s \<Rightarrow> Inr (Some s))"

text \<open>\<^verbatim>\<open>userAns && userAns === correctAns\<close>: the empty string is falsy.\<close>

definition is_match :: "string option \<Rightarrow> string option \<Rightarrow> bool" where
  "is_match u c = (case u of None \<Rightarrow> False | Some s \<Rightarrow> s \<noteq> [] \<and> c = Some s)"

text \<open>
  The inner \<^verbatim>\<open>forEach\<close> over a task's questions, with the running index and the two
  counters \<open>(correct, total)\<close>; an exception leaves the loop.
\<close>

fun score_questions ::
  "jsval \<Rightarrow> (string \<rightharpoonup> string) \<Rightarrow> nat \<Rightarrow> question list \<Rightarrow> nat \<Rightarrow> nat \<times> nat
     \<Rightarrow> js_error + nat \<times> nat" where
  "score_questions ans ua tIdx [] qIdx (c, n) = Inr (c, n)"
| "score_questions ans ua tIdx (q # qs) qIdx (c, n) =
     (case correctAns ans tIdx qIdx of
        Inl e \<Rightarrow> Inl e
      | Inr ca \<Rightarrow>
          score_questions ans ua tIdx qs (Suc qIdx)
            (if is_match (userAns ua (question_number q)) ca then Suc c else c, Suc n))"

text \<open>The outer \<^verbatim>\<open>forEach\<close> over the exam's tasks.\<close>

fun score_tasks ::
  "jsval \<Rightarrow> (string \<rightharpoonup> string) \<Rightarrow> task list \<Rightarrow> nat \<Rightarrow> nat \<times> nat
     \<Rightarrow> js_error + nat \<times> nat" where
  "score_tasks ans ua [] tIdx cn = Inr cn"
| "score_tasks ans ua (t # ts) tIdx cn =
     (case score_questions ans ua tIdx (questions t) 0 cn of
        Inl e \<Rightarrow> Inl e
      | Inr cn' \<Rightarrow> score_tasks ans ua ts (Suc tIdx) cn')"

text \<open>
  The object \<^verbatim>\<open>calculateScore\<close> returns: \<^verbatim>\<open>{ score: 0, total: 0 }\<close> from the guard,
  \<^verbatim>\<open>{ correct, total }\<close> from the loop. A field the object does not have is \<open>None\<close>.
\<close>

record score_result =
  score :: "nat option"
  correct :: "nat option"
  total_n :: nat

definition calculateScore ::
  "exam option \<Rightarrow> jsval \<Rightarrow> (string \<rightharpoonup> string) \<Rightarrow> js_error + score_result" where
  "calculateScore ex ans ua =
     (if \<not> truthy ans then Inr \<lparr>score = Some 0, correct = None, total_n = 0\<rparr>
      else case js_prop ans ''tasks'' of Inl e \<Rightarrow> Inl e | Inr ts \<Rightarrow>
      if \<not> truthy ts then Inr \<lparr>score = Some 0, correct = None, total_n = 0\<rparr>
      else case ex of
        None \<Rightarrow> Inr \<lparr>score = None, correct = Some 0, total_n = 0\<rparr>
      | Some e \<Rightarrow>
          (case score_tasks ans ua (tasks e) 0 (0, 0) of
             Inl err \<Rightarrow> Inl err
           | Inr (c, n) \<Rightarrow> Inr \<lparr>score = None, correct = Some c, total_n = n\<rparr>))"

text \<open>
  The answer key as the components describe it (\<^verbatim>\<open>correctAnswers\<close> is an ``array of
  answer objects from backend''): a list of task entries, each with its list of answer entries,
  each with its \<^verbatim>\<open>answer\<close> string. A task entry, an answer entry or an \<^verbatim>\<open>answer\<close> may be
  missing (\<open>None\<close>); every object may carry further properties (\<^verbatim>\<open>explanation\<close>,
  \<^verbatim>\<open>question\<close>, ...), which are kept as they come.
\<close>

record answer_entry =
  answer :: "string option"
  entry_rest :: "(string \<times> jsval) list"

record task_answers =
  answers :: "answer_entry option list"
  task_rest :: "(string \<times> jsval) list"

record answer_key =
  key_tasks :: "task_answers option list"
  key_rest :: "(string \<times> jsval) list"

text \<open>The JSON value of such a key; a missing array element is \<^verbatim>\<open>null\<close>.\<close>

definition opt_json :: "('a \<Rightarrow> jsval) \<Rightarrow> 'a option \<Rightarrow> jsval" where
  "opt_json f x = (case x of None \<Rightarrow> JNull | Some y \<Rightarrow> f y)"

definition entry_json :: "answer_entry \<Rightarrow> jsval" where
  "entry_json e =
     JObj ((case answer e of None \<Rightarrow> [] | Some a \<Rightarrow> [(''answer'', JStr a)])
           @ filter (\<lambda>kv. fst kv \<noteq> ''answer'') (entry_rest e))"

definition task_json :: "task_answers \<Rightarrow> jsval" where
  "task_json ta = JObj ((''answers'', JArr (map (opt_json entry_json) (answers ta))) # task_rest ta)"

definition key_json :: "answer_key \<Rightarrow> jsval" where
  "key_json k = JObj ((''tasks'', JArr (map (opt_json task_json) (key_tasks k))) # key_rest k)"

text \<open>The stored key entry of the question at position \<open>i\<close> of task \<open>t\<close>, if there is one.\<close>

definition key_answer :: "answer_key \<Rightarrow> nat \<Rightarrow> nat \<Rightarrow> string option" where
  "key_answer k t i =
     (if t < length (key_tasks k) then
        (case key_tasks k ! t of
           None \<Rightarrow> None
         | Some ta \<Rightarrow>
             if i < length (answers ta) then
               (case answers ta ! i of None \<Rightarrow> None | Some e \<Rightarrow> answer e)
             else None)
      else None)"

text \<open>Trimming white space and lower-casing, the normal form in which answers are compared.\<close>

definition normal_form :: "string \<Rightarrow> string" where
  "normal_form s = toLowerCase (trim s)"

text \<open>The submitted answer of a question, and the questions of an exam.\<close>

definition submitted :: "(string \<rightharpoonup> string) \<Rightarrow> question \<Rightarrow> string option" where
  "submitted ua q = ua (qKey (question_number q))"

definition all_questions :: "exam \<Rightarrow> question list" where
  "all_questions ex = concat (map questions (tasks ex))"

definition question_count :: "exam \<Rightarrow> nat" where
  "question_count ex = length (all_questions ex)"

text \<open>
  A question counts when its submitted answer is not empty in normal form and has the
  normal form of its key entry.
\<close>

definition answered_right :: "answer_key \<Rightarrow> (string \<rightharpoonup> string) \<Rightarrow> nat \<Rightarrow> nat \<Rightarrow> question \<Rightarrow> bool" where
  "answered_right k ua t i q =
     (case submitted ua q of
        None \<Rightarrow> False
      | Some u \<Rightarrow>
          normal_form u \<noteq> [] \<and>
          (case key_answer k t i of None \<Rightarrow> False | Some a \<Rightarrow> normal_form a = normal_form u))"

fun right_in_task :: "answer_key \<Rightarrow> (string \<rightharpoonup> string) \<Rightarrow> nat \<Rightarrow> question list \<Rightarrow> nat \<Rightarrow> nat" where
  "right_in_task k ua t [] i = 0"
| "right_in_task k ua t (q # qs) i =
     (if answered_right k ua t i q then 1 else 0) + right_in_task k ua t qs (Suc i)"

fun right_in_tasks :: "answer_key \<Rightarrow> (string \<rightharpoonup> string) \<Rightarrow> task list \<Rightarrow> nat \<Rightarrow> nat" where
  "right_in_tasks k ua [] t = 0"
| "right_in_tasks k ua (x # xs) t =
     right_in_task k ua t (questions x) 0 + right_in_tasks k ua xs (Suc t)"

text \<open>A question has an answer when one is stored for it that is not the empty string.\<close>

definition answer_given :: "(string \<rightharpoonup> string) \<Rightarrow> question \<Rightarrow> bool" where
  "answer_given ua q = (case submitted ua q of None \<Rightarrow> False | Some u \<Rightarrow> u \<noteq> [])"

section \<open>The task components (TrueFalseTask.tsx, ShortAnswerTask.tsx, MatchingHeadingsTask)\<close>

text \<open>\<^verbatim>\<open>setUserAnswers(prev => ({ ...prev, [qId]: value }))\<close>\<close>

definition handleAnswerChange ::
  "string \<Rightarrow> string \<Rightarrow> (string \<rightharpoonup> string) \<Rightarrow> (string \<rightharpoonup> string)" where
  "handleAnswerChange qId v prev = prev(qId \<mapsto> v)"

text \<open>\<^verbatim>\<open>answers[qKey] || ""\<close>\<close>

definition currentAnswer :: "(string \<rightharpoonup> string) \<Rightarrow> question \<Rightarrow> string" where
  "currentAnswer ua q =
     (case ua (qKey (question_number q)) of
        None \<Rightarrow> ''''
      | Some s \<Rightarrow> if s = [] then '''' else s)"

text \<open>
  \<^verbatim>\<open>answers?.tasks?.[activeTaskIndex]?.answers\<close>, the \<^verbatim>\<open>correctAnswers\<close> that ExamClient
  hands to the component of the active task.
\<close>

definition task_correctAnswers :: "jsval \<Rightarrow> nat \<Rightarrow> js_error + jsval" where
  "task_correctAnswers ans activeTaskIndex =
     (if nullish ans then Inr JUndefined else
      case js_prop ans ''tasks'' of Inl e \<Rightarrow> Inl e | Inr ts \<Rightarrow>
      if nullish ts then Inr JUndefined else
      case js_index ts activeTaskIndex of Inl e \<Rightarrow> Inl e | Inr t \<Rightarrow>
      if nullish t then Inr JUndefined else js_prop t ''answers'')"

text \<open>\<^verbatim>\<open>correctAnswers?.[index]?.answer\<close>\<close>

definition correct_answer :: "jsval \<Rightarrow> nat \<Rightarrow> js_error + jsval" where
  "correct_answer correctAnswers index =
     (if nullish correctAnswers then Inr JUndefined else
      case js_index correctAnswers index of Inl e \<Rightarrow> Inl e | Inr a \<Rightarrow>
      if nullish a then Inr JUndefined else js_prop a ''answer'')"

text \<open>The \<^verbatim>\<open>answer\<close> string of the entry at an index of a task's answers, if there is one.\<close>

definition entry_answer :: "answer_entry option list \<Rightarrow> nat \<Rightarrow> string option" where
  "entry_answer es index =
     (if index < length es then (case es ! index of None \<Rightarrow> None | Some e \<Rightarrow> answer e)
      else None)"

text \<open>
  TrueFalseTask and MatchingHeadingsTask: \<^verbatim>\<open>isSubmitted && currentAnswer === correct\<close>.
  A string is strictly equal to a value only if the value is that string.
\<close>

definition TrueFalseTask_isCorrect ::
  "bool \<Rightarrow> (string \<rightharpoonup> string) \<Rightarrow> jsval \<Rightarrow> question \<Rightarrow> nat \<Rightarrow> js_error + bool" where
  "TrueFalseTask_isCorrect isSubmitted ua correctAnswers q index =
     (case correct_answer correctAnswers index of
        Inl e \<Rightarrow> Inl e
      | Inr c \<Rightarrow> Inr (isSubmitted \<and> JStr (currentAnswer ua q) = c))"

definition MatchingHeadingsTask_isCorrect ::
  "bool \<Rightarrow> (string \<rightharpoonup> string) \<Rightarrow> jsval \<Rightarrow> question \<Rightarrow> nat \<Rightarrow> js_error + bool" where
  "MatchingHeadingsTask_isCorrect isSubmitted ua correctAnswers q index =
     (case correct_answer correctAnswers index of
        Inl e \<Rightarrow> Inl e
      | Inr c \<Rightarrow> Inr (isSubmitted \<and> JStr (currentAnswer ua q) = c))"

text \<open>
  ShortAnswerTask:
  \<^verbatim>\<open>isSubmitted && currentAnswer.toLowerCase().trim() === correct?.toLowerCase().trim()\<close>.
  The right operand is evaluated only after submission; it is \<^verbatim>\<open>undefined\<close> for a missing
  answer and a TypeError for a value that is not a string.
\<close>

definition ShortAnswerTask_isCorrect ::
  "bool \<Rightarrow> (string \<rightharpoonup> string) \<Rightarrow> jsval \<Rightarrow> question \<Rightarrow> nat \<Rightarrow> js_error + bool" where
  "ShortAnswerTask_isCorrect isSubmitted ua correctAnswers q index =
     (case correct_answer correctAnswers index of
        Inl e \<Rightarrow> Inl e
      | Inr c \<Rightarrow>
          if \<not> isSubmitted then Inr False
          else if nullish c then Inr False
          else (case c of
                  JStr s \<Rightarrow> Inr (trim (toLowerCase (currentAnswer ua q)) = trim (toLowerCase s))
                | _ \<Rightarrow> Inl TypeError))"

text \<open>
  The options of a True/False/Not Given task:
  \<^verbatim>\<open>task.task_key?.includes('yes_no') || task.instruction?.toLowerCase().includes('yes')\<close>
  selects the yes/no labels.
\<close>

definition isYesNo :: "task \<Rightarrow> bool" where
  "isYesNo t =
     ((case task_key t of None \<Rightarrow> False | Some k \<Rightarrow> js_includes k ''yes_no'')
      \<or> (case instruction t of None \<Rightarrow> False | Some i \<Rightarrow> js_includes (toLowerCase i) ''yes''))"

definition TrueFalseTask_options :: "task \<Rightarrow> string list" where
  "TrueFalseTask_options t =
     (if isYesNo t then [''YES'', ''NO'', ''NOT GIVEN''] else [''TRUE'', ''FALSE'', ''NOT GIVEN''])"

text \<open>
  A click on the button of option \<open>oi\<close> of question \<open>qi\<close>:
  \<^verbatim>\<open>onClick={() => !isSubmitted && setAnswer(qKey, opt)}\<close>. There is one button for each
  question of the task and each option; a click elsewhere is none of this component.
\<close>

definition TrueFalseTask_click ::
  "task \<Rightarrow> bool \<times> nat \<times> nat \<Rightarrow> (string \<rightharpoonup> string) \<Rightarrow> (string \<rightharpoonup> string)" where
  "TrueFalseTask_click t ev ua =
     (case ev of (isSubmitted, qi, oi) \<Rightarrow>
        if qi < length (questions t) \<and> oi < length (TrueFalseTask_options t) \<and> \<not> isSubmitted
        then handleAnswerChange (qKey (question_number (questions t ! qi)))
               (TrueFalseTask_options t ! oi) ua
        else ua)"

definition TrueFalseTask_clicks ::
  "task \<Rightarrow> (bool \<times> nat \<times> nat) list \<Rightarrow> (string \<rightharpoonup> string) \<Rightarrow> (string \<rightharpoonup> string)" where
  "TrueFalseTask_clicks t evs ua = fold (TrueFalseTask_click t) evs ua"

section \<open>Creating an exam (create/page.tsx, ExamConfig)\<close>

record examConfig =
  passageType :: int
  totalQuestions :: int
  numQuestionTypes :: int

text \<open>A \<^verbatim>\<open>Partial<typeof examConfig>\<close>: the fields a change sets.\<close>

record examConfig_change =
  set_passageType :: "int option"
  set_totalQuestions :: "int option"
  set_numQuestionTypes :: "int option"

text \<open>The initial state of \<^verbatim>\<open>useState({ passageType: 1, totalQuestions: 14, numQuestionTypes: 3 })\<close>.\<close>

definition initial_examConfig :: examConfig where
  "initial_examConfig = \<lparr>passageType = 1, totalQuestions = 14, numQuestionTypes = 3\<rparr>"

text \<open>\<^verbatim>\<open>setExamConfig({ ...examConfig, ...config })\<close>, on the configuration of the current render.\<close>

definition handleConfigChange :: "examConfig \<Rightarrow> examConfig_change \<Rightarrow> examConfig" where
  "handleConfigChange cfg ch =
     \<lparr>passageType = (case set_passageType ch of None \<Rightarrow> passageType cfg | Some v \<Rightarrow> v),
      totalQuestions = (case set_totalQuestions ch of None \<Rightarrow> totalQuestions cfg | Some v \<Rightarrow> v),
      numQuestionTypes =
        (case set_numQuestionTypes ch of None \<Rightarrow> numQuestionTypes cfg | Some v \<Rightarrow> v)\<rparr>"

text \<open>
  The effect ExamConfig runs once when it is mounted: a default for each field that is
  falsy. Every call works on the configuration of the same render, so the state after the
  effect is what the last call set.
\<close>

definition ExamConfig_mount :: "examConfig \<Rightarrow> examConfig" where
  "ExamConfig_mount cfg =
     (let calls =
            (if passageType cfg = 0
             then [\<lparr>set_passageType = Some 1, set_totalQuestions = None,
                     set_numQuestionTypes = None\<rparr>] else [])
          @ (if totalQuestions cfg = 0
             then [\<lparr>set_passageType = None, set_totalQuestions = Some 14,
                     set_numQuestionTypes = None\<rparr>] else [])
          @ (if numQuestionTypes cfg = 0
             then [\<lparr>set_passageType = None, set_totalQuestions = None,
                     set_numQuestionTypes = Some 3\<rparr>] else [])
      in fold (\<lambda>ch st. handleConfigChange cfg ch) calls cfg)"

text \<open>The body \<^verbatim>\<open>handleProcess\<close> sends to the generation endpoint.\<close>

record generate_config =
  passage_type :: int
  total_questions :: int
  num_question_types :: int

definition generate_body :: "examConfig \<Rightarrow> generate_config" where
  "generate_body cfg =
     \<lparr>passage_type = passageType cfg, total_questions = totalQuestions cfg,
      num_question_types = numQuestionTypes cfg\<rparr>"

text \<open>
  The generation request of one \<^verbatim>\<open>handleProcess\<close>: none without a file or a URL, none when
  creating the session fails, otherwise the body above.
\<close>

definition handleProcess_request :: "bool \<Rightarrow> string \<Rightarrow> bool \<Rightarrow> examConfig \<Rightarrow> generate_config option" where
  "handleProcess_request has_file fileUrl session_created cfg =
     (if \<not> has_file \<and> fileUrl = [] then None
      else if \<not> session_created then None
      else Some (generate_body cfg))"

text \<open>The answer to a status poll: \<^verbatim>\<open>status\<close>, \<^verbatim>\<open>progress\<close> and \<^verbatim>\<open>message\<close>, the last two optional.\<close>

record exam_status =
  status :: string
  status_progress :: "int option"
  message :: "string option"

text \<open>
  The state \<^verbatim>\<open>handleProcess\<close> and \<^verbatim>\<open>pollStatus\<close> work on: the React state of the page,
  whether the interval timer \<^verbatim>\<open>pollInterval\<close> is running, and the number of redirects
  to the exam that have been scheduled.
\<close>

record create_state =
  currentStep :: nat
  progress :: int
  statusMessage :: string
  error :: "string option"
  isProcessing :: bool
  pollInterval :: bool
  redirects :: nat

text \<open>The decimal text of an integer, and \<^verbatim>\<open>${status.progress}\<close> of the status message.\<close>

definition decimal_int :: "int \<Rightarrow> string" where
  "decimal_int i = (if 0 \<le> i then decimal (nat i) else CHR ''-'' # decimal (nat (- i)))"

definition progress_text :: "int option \<Rightarrow> string" where
  "progress_text p = (case p of None \<Rightarrow> ''undefined'' | Some i \<Rightarrow> decimal_int i)"

text \<open>The \<^verbatim>\<open>switch\<close> of \<^verbatim>\<open>pollStatus\<close>: the step and the message of a status.\<close>

definition status_step :: "exam_status \<Rightarrow> nat \<times> string" where
  "status_step st =
     (if status st = ''queued'' then (2, ''Queued for processing...'')
      else if status st = ''preprocessing'' then (2, ''Preprocessing content...'')
      else if status st = ''generating_passage'' then (2, ''Generating reading passage...'')
      else if status st = ''planning_strategy'' then (3, ''Planning question strategy...'')
      else if status st = ''generating_questions''
        then (4, ''Generating questions... ('' @ progress_text (status_progress st) @ ''%)'')
      else if status st = ''finalizing'' then (5, ''Finalizing exam...'')
      else (2, ''Processing...''))"

text \<open>
  One run of \<^verbatim>\<open>pollStatus\<close> on the answer of the server; \<open>None\<close> is a request that threw,
  which is caught and logged. \<^verbatim>\<open>if (pollInterval) clearInterval(pollInterval)\<close> leaves no
  timer running. \<^verbatim>\<open>status.progress || 0\<close> is 0 for a missing progress.
\<close>

definition pollStatus :: "exam_status option \<Rightarrow> create_state \<Rightarrow> create_state" where
  "pollStatus r s =
     (case r of
        None \<Rightarrow> s
      | Some st \<Rightarrow>
          if status st = ''failed'' then
            s\<lparr>pollInterval := False,
              error := Some (case message st of
                               None \<Rightarrow> ''Generation failed''
                             | Some m \<Rightarrow> if m = [] then ''Generation failed'' else m),
              isProcessing := False\<rparr>
          else if status st = ''completed'' then
            s\<lparr>pollInterval := False,
              currentStep := 5,
              progress := 100,
              statusMessage := ''Exam generated successfully! Redirecting...'',
              redirects := Suc (redirects s)\<rparr>
          else
            s\<lparr>currentStep := fst (status_step st),
              progress := max (progress s)
                            (case status_progress st of None \<Rightarrow> 0 | Some p \<Rightarrow> p),
              statusMessage := snd (status_step st)\<rparr>)"

text \<open>
  The polling of \<^verbatim>\<open>handleProcess\<close>: \<^verbatim>\<open>await pollStatus()\<close>, then
  \<^verbatim>\<open>pollInterval = setInterval(pollStatus, 2000)\<close>, then one poll for each tick of the
  timer while it runs. The polls are taken one after the other, each answer handled
  before the next tick. \<open>polling\<close> lists the state after each poll that is issued, for the
  answers the server gives to successive polls.
\<close>

definition first_poll :: "exam_status option \<Rightarrow> create_state \<Rightarrow> create_state" where
  "first_poll r s = (pollStatus r s)\<lparr>pollInterval := True\<rparr>"

fun interval_polls :: "exam_status option list \<Rightarrow> create_state \<Rightarrow> create_state list" where
  "interval_polls [] s = []"
| "interval_polls (r # rs) s =
     (if pollInterval s then pollStatus r s # interval_polls rs (pollStatus r s) else [])"

fun polling :: "exam_status option list \<Rightarrow> create_state \<Rightarrow> create_state list" where
  "polling [] s = []"
| "polling (r # rs) s = first_poll r s # interval_polls rs (first_poll r s)"

text \<open>The state in which \<^verbatim>\<open>handleProcess\<close> starts to poll.\<close>

definition polling_start :: create_state where
  "polling_start =
     \<lparr>currentStep = 2, progress = 20, statusMessage = ''Starting exam generation...'',
      error = None, isProcessing = True, pollInterval = False, redirects = 0\<rparr>"

text \<open>Whether every progress value the server reports is at most 100.\<close>

definition progress_in_range :: "exam_status option \<Rightarrow> bool" where
  "progress_in_range r =
     (case r of None \<Rightarrow> True
      | Some st \<Rightarrow> (case status_progress st of None \<Rightarrow> True | Some p \<Rightarrow> p \<le> 100))"

section \<open>Choosing a file (FileUpload)\<close>

record js_file =
  file_name :: string
  file_type :: string
  file_size :: nat

datatype upload_method = File_method | Url_method

record upload_state =
  dragActive :: bool
  file_selected :: "js_file option"
  fileUrl :: string
  uploadMethod :: upload_method

text \<open>
  What a handler does besides changing the state: the calls of \<^verbatim>\<open>onFileSelected\<close>, which
  hand a file to the page that creates the exam, and the alerts shown.
\<close>

record upload_effects =
  forwarded :: "(js_file option \<times> string \<times> upload_method) list"
  alerts :: "string list"

text \<open>\<^verbatim>\<open>handleDrop\<close>, on the files of the drop (\<^verbatim>\<open>e.dataTransfer.files\<close>).\<close>

definition handleDrop :: "bool \<Rightarrow> js_file list \<Rightarrow> upload_state \<Rightarrow> upload_state \<times> upload_effects" where
  "handleDrop disabled files s =
     (if disabled then (s, \<lparr>forwarded = [], alerts = []\<rparr>)
      else case files of
        [] \<Rightarrow> (s\<lparr>dragActive := False\<rparr>, \<lparr>forwarded = [], alerts = []\<rparr>)
      | f # _ \<Rightarrow>
          if file_type f = ''application/pdf''
          then (s\<lparr>dragActive := False, file_selected := Some f\<rparr>,
                \<lparr>forwarded = [(Some f, '''', File_method)], alerts = []\<rparr>)
          else (s\<lparr>dragActive := False\<rparr>,
                \<lparr>forwarded = [], alerts = [''Please upload a PDF file'']\<rparr>))"

text \<open>\<^verbatim>\<open>handleFileChange\<close>, on the files of the file picker (\<^verbatim>\<open>e.target.files\<close>).\<close>

definition handleFileChange :: "bool \<Rightarrow> js_file list \<Rightarrow> upload_state \<Rightarrow> upload_state \<times> upload_effects" where
  "handleFileChange disabled files s =
     (if disabled then (s, \<lparr>forwarded = [], alerts = []\<rparr>)
      else case files of
        [] \<Rightarrow> (s, \<lparr>forwarded = [], alerts = []\<rparr>)
      | f # _ \<Rightarrow>
          if file_type f = ''application/pdf''
          then (s\<lparr>file_selected := Some f\<rparr>,
                \<lparr>forwarded = [(Some f, '''', File_method)], alerts = []\<rparr>)
          else (s, \<lparr>forwarded = [], alerts = [''Please upload a PDF file'']\<rparr>))"

section \<open>The list of sessions (SessionList.tsx)\<close>

record session_info =
  session_id :: string
  filename :: string
  has_exam :: bool
  word_count :: nat

text \<open>
  \<^verbatim>\<open>handleDelete\<close>: the user confirms or not, \<^verbatim>\<open>api.deleteSession\<close> succeeds or throws.
  The handler is a closure of the render that created it: the \<^verbatim>\<open>sessions\<close> it filters,
  after the awaited call has returned, is the list of that render (\<open>captured\<close>), whatever
  list is shown by then (\<open>displayed\<close>). The result is the list shown afterwards and the
  alerts.
\<close>

definition handleDelete ::
  "bool \<Rightarrow> bool \<Rightarrow> string \<Rightarrow> session_info list \<Rightarrow> session_info list
     \<Rightarrow> session_info list \<times> string list" where
  "handleDelete confirmed deleted sid captured displayed =
     (if \<not> confirmed then (displayed, [])
      else if deleted then (filter (\<lambda>s. session_id s \<noteq> sid) captured, [])
      else (displayed, [''Failed to delete session'']))"

section \<open>Generation jobs of the server\<close>

text \<open>
  Modelled from the spec: the stages of a generation job (section 4.2). The server that
  runs the jobs is not among the sources; the front end only calls it. The stages are
  \<^verbatim>\<open>queued\<close>, \<^verbatim>\<open>preprocessing\<close>, \<^verbatim>\<open>generating_passage\<close>, \<^verbatim>\<open>planning_strategy\<close>,
  \<^verbatim>\<open>generating_questions\<close>, \<^verbatim>\<open>finalizing\<close>, \<^verbatim>\<open>completed\<close>, and \<^verbatim>\<open>failed\<close>.
\<close>

datatype stage =
    Queued
  | Preprocessing
  | Generating_passage
  | Planning_strategy
  | Generating_questions
  | Finalizing
  | Completed
  | Failed

text \<open>Modelled from the spec: \<^verbatim>\<open>completed\<close> and \<^verbatim>\<open>failed\<close> are the terminal stages.\<close>

definition terminal :: "stage \<Rightarrow> bool" where
  "terminal st = (st = Completed \<or> st = Failed)"

text \<open>
  Modelled from the spec: the stages follow each other ``in strict forward order, no
  skipping, no cycles''; a terminal stage stays.
\<close>

fun next_stage :: "stage \<Rightarrow> stage" where
  "next_stage Queued = Preprocessing"
| "next_stage Preprocessing = Generating_passage"
| "next_stage Generating_passage = Planning_strategy"
| "next_stage Planning_strategy = Generating_questions"
| "next_stage Generating_questions = Finalizing"
| "next_stage Finalizing = Completed"
| "next_stage Completed = Completed"
| "next_stage Failed = Failed"

text \<open>
  Modelled from the spec: a GenerationJob, bound to the session it generates for
  (section 3), and the error of a second request (section 7).
\<close>

record generation_job =
  job_session :: string
  job_stage :: stage

datatype generation_error = JobAlreadyRunning

text \<open>Modelled from the spec: the active jobs of a session are its jobs in a non-terminal stage.\<close>

definition active_jobs :: "string \<Rightarrow> generation_job list \<Rightarrow> generation_job list" where
  "active_jobs sid jobs = filter (\<lambda>j. job_session j = sid \<and> \<not> terminal (job_stage j)) jobs"

text \<open>
  Modelled from the spec: requesting generation (section 5). ``A second generation request
  against a session already in a non-terminal stage must be rejected with a
  \<^verbatim>\<open>JobAlreadyRunning\<close> error rather than queued or merged''; otherwise the job is accepted
  in stage \<^verbatim>\<open>queued\<close>. The result is the answer to the request and the jobs afterwards.
\<close>

definition request_generation ::
  "string \<Rightarrow> generation_job list \<Rightarrow> (generation_error + unit) \<times> generation_job list" where
  "request_generation sid jobs =
     (if active_jobs sid jobs \<noteq> [] then (Inl JobAlreadyRunning, jobs)
      else (Inr (), jobs @ [\<lparr>job_session = sid, job_stage = Queued\<rparr>]))"

text \<open>
  Modelled from the spec: the orchestrator moves the active job of a session to its next
  stage, or to \<^verbatim>\<open>failed\<close>, which is ``reachable from any non-terminal state''.
\<close>

definition advance_job :: "string \<Rightarrow> generation_job list \<Rightarrow> generation_job list" where
  "advance_job sid jobs =
     map (\<lambda>j. if job_session j = sid \<and> \<not> terminal (job_stage j)
               then j\<lparr>job_stage := next_stage (job_stage j)\<rparr> else j) jobs"

definition fail_job :: "string \<Rightarrow> generation_job list \<Rightarrow> generation_job list" where
  "fail_job sid jobs =
     map (\<lambda>j. if job_session j = sid \<and> \<not> terminal (job_stage j)
               then j\<lparr>job_stage := Failed\<rparr> else j) jobs"

text \<open>Modelled from the spec: what happens to the jobs of the server, one event after the other.\<close>

datatype job_event = Request string | Advance string | Fail string

fun job_step :: "job_event \<Rightarrow> generation_job list \<Rightarrow> generation_job list" where
  "job_step (Request sid) jobs = snd (request_generation sid jobs)"
| "job_step (Advance sid) jobs = advance_job sid jobs"
| "job_step (Fail sid) jobs = fail_job sid jobs"

definition run_events :: "job_event list \<Rightarrow> generation_job list \<Rightarrow> generation_job list" where
  "run_events evs jobs = fold job_step evs jobs"

section \<open>Facts about the string primitives\<close>

lemmas js_string_defs =
  toLowerCase_def trim_def is_js_space_def lower_char_def upper_chars_def lower_chars_def

lemma qKey_1: "qKey (Suc 0) = ''q-1''"
  by (simp add: qKey_def decimal.simps digit_def)

lemma qKey_2: "qKey 2 = ''q-2''"
  by (simp add: qKey_def decimal.simps digit_def)

lemma normal_form_examples:
  "normal_form '' paris '' = ''paris''" "normal_form ''Paris'' = ''paris''"
  "normal_form ''true'' = ''true''" "normal_form ''TRUE'' = ''true''"
  by (simp_all add: normal_form_def js_string_defs)

lemma qKey_3: "qKey 3 = ''q-3''"
  by (simp add: qKey_def decimal.simps digit_def)

lemma normal_form_options:
  "normal_form ''TRUE'' = ''true''" "normal_form ''FALSE'' = ''false''"
  "normal_form ''NOT GIVEN'' = ''not given''" "normal_form ''YES'' = ''yes''"
  "normal_form ''NO'' = ''no''"
  by (simp_all add: normal_form_def js_string_defs)

lemma lower_char_space: "is_js_space (lower_char c) = is_js_space c"
proof (cases "map_of (zip upper_chars lower_chars) c")
  case None
  then show ?thesis by (simp add: lower_char_def)
next
  case (Some l)
  then have "(c, l) \<in> set (zip upper_chars lower_chars)"
    by (rule map_of_SomeD)
  then have "\<not> is_js_space c \<and> \<not> is_js_space l"
    unfolding upper_chars_def lower_chars_def is_js_space_def by auto
  with Some show ?thesis by (simp add: lower_char_def)
qed

lemma trim_toLowerCase: "trim (toLowerCase s) = normal_form s"
proof -
  have dw: "dropWhile is_js_space (map lower_char xs) = map lower_char (dropWhile is_js_space xs)" for xs
    by (induction xs) (simp_all add: lower_char_space)
  show ?thesis
    unfolding trim_def toLowerCase_def normal_form_def
    by (simp add: dw rev_map)
qed

section \<open>The score against a stored answer key\<close>

lemma map_of_filter_fst_neq: "map_of (filter (\<lambda>kv. fst kv \<noteq> x) xs) x = None"
  by (induction xs) auto

lemma js_prop_entry_json:
  "js_prop (entry_json e) ''answer'' = Inr (case answer e of None \<Rightarrow> JUndefined | Some a \<Rightarrow> JStr a)"
  by (cases "answer e") (simp_all add: entry_json_def map_of_filter_fst_neq)

lemma not_nullish_entry_json: "\<not> nullish (entry_json e)"
  by (simp add: entry_json_def)

lemma js_prop_key_json: "js_prop (key_json k) ''tasks'' = Inr (JArr (map (opt_json task_json) (key_tasks k)))"
  by (simp add: key_json_def)

lemma truthy_key_json: "truthy (key_json k)"
  by (simp add: key_json_def)

lemma correctAns_key_json:
  "correctAns (key_json k) t i = Inr (map_option normal_form (key_answer k t i))"
  by (auto simp: correctAns_def js_prop_key_json key_answer_def opt_json_def task_json_def
        js_prop_entry_json not_nullish_entry_json normal_form_def split: option.splits)

lemma is_match_answered_right:
  "is_match (userAns ua (question_number q)) (map_option normal_form (key_answer k t i))
     = answered_right k ua t i q"
  by (auto simp: is_match_def userAns_def answered_right_def submitted_def normal_form_def
        split: option.splits)

lemma score_questions_key_json:
  "score_questions (key_json k) ua t qs i (c, n)
     = Inr (c + right_in_task k ua t qs i, n + length qs)"
  by (induction qs arbitrary: i c n)
     (simp_all add: correctAns_key_json is_match_answered_right)

lemma score_tasks_key_json:
  "score_tasks (key_json k) ua ts t (c, n)
     = Inr (c + right_in_tasks k ua ts t, n + length (concat (map questions ts)))"
  by (induction ts arbitrary: t c n) (simp_all add: score_questions_key_json)

lemma calculateScore_key_json:
  "calculateScore (Some ex) (key_json k) ua
     = Inr \<lparr>score = None, correct = Some (right_in_tasks k ua (tasks ex) 0),
            total_n = question_count ex\<rparr>"
  by (simp add: calculateScore_def score_tasks_key_json question_count_def all_questions_def
        truthy_key_json js_prop_key_json)

lemma right_in_task_all:
  "(\<And>j. j < length qs \<Longrightarrow> answered_right k ua t (i + j) (qs ! j))
     \<Longrightarrow> right_in_task k ua t qs i = length qs"
proof (induction qs arbitrary: i)
  case Nil
  then show ?case by simp
next
  case (Cons q qs)
  have q: "answered_right k ua t i q"
    using Cons.prems [of 0] by simp
  have "right_in_task k ua t qs (Suc i) = length qs"
  proof (rule Cons.IH)
    fix j assume "j < length qs"
    then show "answered_right k ua t (Suc i + j) (qs ! j)"
      using Cons.prems [of "Suc j"] by simp
  qed
  with q show ?case by simp
qed

lemma right_in_tasks_all:
  "(\<And>s j. s < length ts \<Longrightarrow> j < length (questions (ts ! s))
        \<Longrightarrow> answered_right k ua (t + s) j (questions (ts ! s) ! j))
     \<Longrightarrow> right_in_tasks k ua ts t = length (concat (map questions ts))"
proof (induction ts arbitrary: t)
  case Nil
  then show ?case by simp
next
  case (Cons x xs)
  have "right_in_task k ua t (questions x) 0 = length (questions x)"
  proof (rule right_in_task_all)
    fix j assume "j < length (questions x)"
    then show "answered_right k ua t (0 + j) (questions x ! j)"
      using Cons.prems [of 0 j] by simp
  qed
  moreover have "right_in_tasks k ua xs (Suc t) = length (concat (map questions xs))"
  proof (rule Cons.IH)
    fix s j assume "s < length xs" "j < length (questions (xs ! s))"
    then show "answered_right k ua (Suc t + s) j (questions (xs ! s) ! j)"
      using Cons.prems [of "Suc s" j] by simp
  qed
  ultimately show ?case by simp
qed

lemma right_in_task_empty: "right_in_task k Map.empty t qs i = 0"
  by (induction qs arbitrary: i) (simp_all add: answered_right_def submitted_def)

lemma right_in_tasks_empty: "right_in_tasks k Map.empty ts t = 0"
  by (induction ts arbitrary: t) (simp_all add: right_in_task_empty)

text \<open>
  Claim C1, as the code has it. The key entry of a question is the one at the question's
  position (task index, question index). If every question of the exam has a submitted
  answer whose trimmed, lower-cased form is not empty and is that of its key entry, then
  \<^verbatim>\<open>calculateScore\<close> returns \<open>correct = total\<close>, the number of questions. With no
  answer submitted at all it returns \<open>correct = 0\<close>, and it raises nothing in either case.
\<close>

theorem calculateScore_all_right_and_empty:
  "((\<forall>t<length (tasks ex). \<forall>i<length (questions (tasks ex ! t)).
       \<exists>u a. submitted ua (questions (tasks ex ! t) ! i) = Some u
          \<and> key_answer k t i = Some a
          \<and> normal_form u = normal_form a \<and> normal_form u \<noteq> [])
     \<longrightarrow> calculateScore (Some ex) (key_json k) ua
          = Inr \<lparr>score = None, correct = Some (question_count ex),
                 total_n = question_count ex\<rparr>)
   \<and> calculateScore (Some ex) (key_json k) Map.empty
       = Inr \<lparr>score = None, correct = Some 0, total_n = question_count ex\<rparr>"
proof (intro conjI impI)
  assume all: "\<forall>t<length (tasks ex). \<forall>i<length (questions (tasks ex ! t)).
       \<exists>u a. submitted ua (questions (tasks ex ! t) ! i) = Some u
          \<and> key_answer k t i = Some a
          \<and> normal_form u = normal_form a \<and> normal_form u \<noteq> []"
  have "right_in_tasks k ua (tasks ex) 0 = length (concat (map questions (tasks ex)))"
  proof (rule right_in_tasks_all)
    fix s j assume "s < length (tasks ex)" "j < length (questions (tasks ex ! s))"
    with all obtain u a where
      "submitted ua (questions (tasks ex ! s) ! j) = Some u" "key_answer k s j = Some a"
      "normal_form u = normal_form a" "normal_form u \<noteq> []"
      by blast
    then show "answered_right k ua (0 + s) j (questions (tasks ex ! s) ! j)"
      by (simp add: answered_right_def)
  qed
  then show "calculateScore (Some ex) (key_json k) ua
          = Inr \<lparr>score = None, correct = Some (question_count ex),
                 total_n = question_count ex\<rparr>"
    by (simp add: calculateScore_key_json question_count_def all_questions_def)
next
  show "calculateScore (Some ex) (key_json k) Map.empty
       = Inr \<lparr>score = None, correct = Some 0, total_n = question_count ex\<rparr>"
    by (simp add: calculateScore_key_json right_in_tasks_empty)
qed

theorem calculateScore_all_right_and_empty_witness:
  "calculateScore
     (Some \<lparr>tasks = [\<lparr>task_type = ''Short Answer'', task_key = None, instruction = None,
                      questions = [\<lparr>question_number = 1\<rparr>, \<lparr>question_number = 2\<rparr>]\<rparr>]\<rparr>)
     (key_json \<lparr>key_tasks = [Some \<lparr>answers = [Some \<lparr>answer = Some ''Paris'', entry_rest = []\<rparr>,
                                              Some \<lparr>answer = Some ''TRUE'', entry_rest = []\<rparr>],
                                   task_rest = []\<rparr>],
                key_rest = []\<rparr>)
     [''q-1'' \<mapsto> '' paris '', ''q-2'' \<mapsto> ''true'']
   = Inr \<lparr>score = None, correct = Some 2, total_n = 2\<rparr>"
proof -
  let ?ex = "\<lparr>tasks = [\<lparr>task_type = ''Short Answer'', task_key = None, instruction = None,
                      questions = [\<lparr>question_number = 1\<rparr>, \<lparr>question_number = 2\<rparr>]\<rparr>]\<rparr>"
  let ?ua = "[''q-1'' \<mapsto> '' paris '', ''q-2'' \<mapsto> ''true'']"
  let ?k = "\<lparr>key_tasks = [Some \<lparr>answers = [Some \<lparr>answer = Some ''Paris'', entry_rest = []\<rparr>,
                                              Some \<lparr>answer = Some ''TRUE'', entry_rest = []\<rparr>],
                                   task_rest = []\<rparr>],
                key_rest = []\<rparr>"
  have hyp: "\<forall>t<length (tasks ?ex). \<forall>i<length (questions (tasks ?ex ! t)).
       \<exists>u a. submitted ?ua (questions (tasks ?ex ! t) ! i) = Some u
          \<and> key_answer ?k t i = Some a
          \<and> normal_form u = normal_form a \<and> normal_form u \<noteq> []"
  proof (intro allI impI)
    fix t i
    assume "t < length (tasks ?ex)" and i: "i < length (questions (tasks ?ex ! t))"
    then have t: "t = 0" by simp
    with i have "i = 0 \<or> i = 1" by auto
    then show "\<exists>u a. submitted ?ua (questions (tasks ?ex ! t) ! i) = Some u
          \<and> key_answer ?k t i = Some a
          \<and> normal_form u = normal_form a \<and> normal_form u \<noteq> []"
    proof
      assume "i = 0"
      with t show ?thesis
        by (simp add: submitted_def key_answer_def qKey_1 normal_form_examples)
    next
      assume "i = 1"
      with t show ?thesis
        by (simp add: submitted_def key_answer_def qKey_2 normal_form_examples)
    qed
  qed
  have "question_count ?ex = 2"
    by (simp add: question_count_def all_questions_def)
  with calculateScore_all_right_and_empty [of ?ex ?ua ?k] hyp show ?thesis
    by simp
qed

text \<open>
  Without the condition that the normal form is not empty the claim fails: a blank
  answer and a blank key entry agree in normal form, and the guard \<^verbatim>\<open>userAns &&\<close> of
  the code does not count the question.
\<close>

theorem calculateScore_blank_answer_counterexample:
  "submitted [''q-1'' \<mapsto> '' ''] \<lparr>question_number = 1\<rparr> = Some '' ''
   \<and> key_answer \<lparr>key_tasks = [Some \<lparr>answers = [Some \<lparr>answer = Some '''', entry_rest = []\<rparr>],
                                     task_rest = []\<rparr>], key_rest = []\<rparr> 0 0 = Some ''''
   \<and> normal_form '' '' = normal_form ''''
   \<and> calculateScore
       (Some \<lparr>tasks = [\<lparr>task_type = ''Short Answer'', task_key = None, instruction = None,
                        questions = [\<lparr>question_number = 1\<rparr>]\<rparr>]\<rparr>)
       (key_json \<lparr>key_tasks = [Some \<lparr>answers = [Some \<lparr>answer = Some '''', entry_rest = []\<rparr>],
                                     task_rest = []\<rparr>], key_rest = []\<rparr>)
       [''q-1'' \<mapsto> '' '']
     = Inr \<lparr>score = None, correct = Some 0, total_n = 1\<rparr>"
  by (simp add: calculateScore_key_json question_count_def all_questions_def
        answered_right_def submitted_def key_answer_def qKey_1 normal_form_def js_string_defs)

lemma normal_form_Nil: "normal_form [] = []"
  by (simp add: normal_form_def trim_def toLowerCase_def)

lemma answered_right_given: "answered_right k ua t i q \<Longrightarrow> answer_given ua q"
  by (auto simp: answered_right_def answer_given_def normal_form_Nil split: option.splits)

lemma right_in_task_le:
  "right_in_task k ua t qs i \<le> length (filter (answer_given ua) qs)"
proof (induction qs arbitrary: i)
  case Nil
  then show ?case by simp
next
  case (Cons q qs)
  from Cons.IH [of "Suc i"] show ?case
    by (auto dest: answered_right_given)
qed

lemma right_in_tasks_le:
  "right_in_tasks k ua ts t \<le> length (filter (answer_given ua) (concat (map questions ts)))"
proof (induction ts arbitrary: t)
  case Nil
  then show ?case by simp
next
  case (Cons x xs)
  from Cons.IH [of "Suc t"] right_in_task_le [of k ua t "questions x" 0]
  show ?case by simp
qed

text \<open>
  Claim C8, as the code has it. On every key in which task entries, answer entries and
  \<^verbatim>\<open>answer\<close> strings may be missing, \<^verbatim>\<open>calculateScore\<close> returns: its total is the number of
  questions of the exam, and its number of correct answers is at most the number of
  questions that have a non-empty answer, so a question with no answer or the empty
  answer is never counted, whatever the key holds for it. When the key itself is missing
  (\<^verbatim>\<open>undefined\<close>, \<^verbatim>\<open>null\<close>) or has no \<^verbatim>\<open>tasks\<close>, the guard returns \<^verbatim>\<open>{ score: 0, total: 0 }\<close>.
\<close>

theorem calculateScore_partial_key:
  "(\<exists>c. calculateScore (Some ex) (key_json k) ua
            = Inr \<lparr>score = None, correct = Some c, total_n = question_count ex\<rparr>
        \<and> c \<le> length (filter (answer_given ua) (all_questions ex)))
   \<and> calculateScore (Some ex) JUndefined ua = Inr \<lparr>score = Some 0, correct = None, total_n = 0\<rparr>
   \<and> calculateScore (Some ex) JNull ua = Inr \<lparr>score = Some 0, correct = None, total_n = 0\<rparr>
   \<and> (map_of props ''tasks'' = None \<longrightarrow>
        calculateScore (Some ex) (JObj props) ua
          = Inr \<lparr>score = Some 0, correct = None, total_n = 0\<rparr>)"
proof (intro conjI impI)
  show "\<exists>c. calculateScore (Some ex) (key_json k) ua
            = Inr \<lparr>score = None, correct = Some c, total_n = question_count ex\<rparr>
        \<and> c \<le> length (filter (answer_given ua) (all_questions ex))"
    using right_in_tasks_le [of k ua "tasks ex" 0]
    by (simp add: calculateScore_key_json all_questions_def)
qed (simp_all add: calculateScore_def)

theorem calculateScore_partial_key_witness:
  "(\<exists>c. calculateScore
          (Some \<lparr>tasks = [\<lparr>task_type = ''Short Answer'', task_key = None, instruction = None,
                      questions = [\<lparr>question_number = 1\<rparr>, \<lparr>question_number = 2\<rparr>]\<rparr>]\<rparr>)
          (key_json \<lparr>key_tasks = [Some \<lparr>answers = [None], task_rest = []\<rparr>], key_rest = []\<rparr>)
          [''q-1'' \<mapsto> '''']
        = Inr \<lparr>score = None, correct = Some c, total_n = 2\<rparr> \<and> c \<le> 0)
   \<and> map_of [(''status'', JStr ''ok'')] ''tasks'' = None
   \<and> calculateScore
          (Some \<lparr>tasks = [\<lparr>task_type = ''Short Answer'', task_key = None, instruction = None,
                      questions = [\<lparr>question_number = 1\<rparr>, \<lparr>question_number = 2\<rparr>]\<rparr>]\<rparr>)
          (JObj [(''status'', JStr ''ok'')]) [''q-1'' \<mapsto> '''']
        = Inr \<lparr>score = Some 0, correct = None, total_n = 0\<rparr>"
  using calculateScore_partial_key
    [of "\<lparr>tasks = [\<lparr>task_type = ''Short Answer'', task_key = None, instruction = None,
                      questions = [\<lparr>question_number = 1\<rparr>, \<lparr>question_number = 2\<rparr>]\<rparr>]\<rparr>"
        "\<lparr>key_tasks = [Some \<lparr>answers = [None], task_rest = []\<rparr>], key_rest = []\<rparr>"
        "[''q-1'' \<mapsto> '''']" "[(''status'', JStr ''ok'')]"]
  by (simp add: question_count_def all_questions_def answer_given_def submitted_def
        qKey_1 qKey_2)

text \<open>
  The claim as stated fails twice: a task entry without its \<^verbatim>\<open>answers\<close> array makes
  \<^verbatim>\<open>answers.tasks[tIdx]?.answers[qIdx]\<close> index \<^verbatim>\<open>undefined\<close>, a TypeError; and with the
  key missing the total is 0, not the number of questions.
\<close>

theorem calculateScore_throws_or_total_zero_counterexample:
  "calculateScore
     (Some \<lparr>tasks = [\<lparr>task_type = ''Short Answer'', task_key = None, instruction = None,
                      questions = [\<lparr>question_number = 1\<rparr>]\<rparr>]\<rparr>)
     (JObj [(''tasks'', JArr [JObj []])]) Map.empty
   = Inl TypeError
   \<and> calculateScore
     (Some \<lparr>tasks = [\<lparr>task_type = ''Short Answer'', task_key = None, instruction = None,
                      questions = [\<lparr>question_number = 1\<rparr>]\<rparr>]\<rparr>)
     JNull Map.empty
   = Inr \<lparr>score = Some 0, correct = None, total_n = 0\<rparr>
   \<and> question_count \<lparr>tasks = [\<lparr>task_type = ''Short Answer'', task_key = None, instruction = None,
                      questions = [\<lparr>question_number = 1\<rparr>]\<rparr>]\<rparr> = 1"
  by (simp add: calculateScore_def correctAns_def question_count_def all_questions_def)

section \<open>Correctness shown by the task components, and the values they store\<close>

lemma correct_answer_entries:
  "correct_answer (JArr (map (opt_json entry_json) es)) index
     = Inr (if index < length es then
              (case es ! index of
                 None \<Rightarrow> JUndefined
               | Some e \<Rightarrow> (case answer e of None \<Rightarrow> JUndefined | Some a \<Rightarrow> JStr a))
            else JUndefined)"
  by (auto simp: correct_answer_def opt_json_def js_prop_entry_json not_nullish_entry_json
        split: option.splits)

lemma correct_answer_entry_answer:
  "correct_answer (JArr (map (opt_json entry_json) es)) index
     = Inr (case entry_answer es index of None \<Rightarrow> JUndefined | Some a \<Rightarrow> JStr a)"
  by (simp add: correct_answer_entries entry_answer_def split: option.splits)

lemma options_exact_iff_normal:
  assumes "a \<in> set (TrueFalseTask_options t)" "c \<in> set (TrueFalseTask_options t)"
  shows "(c = a) = (normal_form c = normal_form a)"
  using assms
  by (auto simp: TrueFalseTask_options_def normal_form_options split: if_splits)

text \<open>
  What the components compute after submission, for the answers array of a task of the
  key. ShortAnswerTask marks a question correct exactly when the submitted answer and the
  key entry agree after lower-casing and trimming. TrueFalseTask and MatchingHeadingsTask
  mark it correct exactly when the recorded option is the key entry itself, character for
  character; for a True/False/Not Given task this is the comparison of the normal forms
  only when the key entry and the recorded answer are both option labels.
\<close>

lemma isCorrect_by_task_component:
  "ShortAnswerTask_isCorrect True ua (JArr (map (opt_json entry_json) es)) q index
     = Inr (case entry_answer es index of
              None \<Rightarrow> False
            | Some a \<Rightarrow> normal_form (currentAnswer ua q) = normal_form a)
   \<and> TrueFalseTask_isCorrect True ua (JArr (map (opt_json entry_json) es)) q index
     = Inr (case entry_answer es index of None \<Rightarrow> False | Some a \<Rightarrow> currentAnswer ua q = a)
   \<and> MatchingHeadingsTask_isCorrect True ua (JArr (map (opt_json entry_json) es)) q index
     = Inr (case entry_answer es index of None \<Rightarrow> False | Some a \<Rightarrow> currentAnswer ua q = a)
   \<and> (\<forall>a. entry_answer es index = Some a \<and> a \<in> set (TrueFalseTask_options t)
          \<and> currentAnswer ua q \<in> set (TrueFalseTask_options t)
        \<longrightarrow> TrueFalseTask_isCorrect True ua (JArr (map (opt_json entry_json) es)) q index
            = Inr (normal_form (currentAnswer ua q) = normal_form a))"
proof (intro conjI allI impI)
  show "ShortAnswerTask_isCorrect True ua (JArr (map (opt_json entry_json) es)) q index
     = Inr (case entry_answer es index of
              None \<Rightarrow> False
            | Some a \<Rightarrow> normal_form (currentAnswer ua q) = normal_form a)"
    by (simp add: ShortAnswerTask_isCorrect_def correct_answer_entry_answer trim_toLowerCase
          split: option.splits)
next
  show "TrueFalseTask_isCorrect True ua (JArr (map (opt_json entry_json) es)) q index
     = Inr (case entry_answer es index of None \<Rightarrow> False | Some a \<Rightarrow> currentAnswer ua q = a)"
    by (simp add: TrueFalseTask_isCorrect_def correct_answer_entry_answer split: option.splits)
next
  show "MatchingHeadingsTask_isCorrect True ua (JArr (map (opt_json entry_json) es)) q index
     = Inr (case entry_answer es index of None \<Rightarrow> False | Some a \<Rightarrow> currentAnswer ua q = a)"
    by (simp add: MatchingHeadingsTask_isCorrect_def correct_answer_entry_answer
          split: option.splits)
next
  fix a
  assume "entry_answer es index = Some a \<and> a \<in> set (TrueFalseTask_options t)
          \<and> currentAnswer ua q \<in> set (TrueFalseTask_options t)"
  then show "TrueFalseTask_isCorrect True ua (JArr (map (opt_json entry_json) es)) q index
            = Inr (normal_form (currentAnswer ua q) = normal_form a)"
    using options_exact_iff_normal [of a t "currentAnswer ua q"]
    by (simp add: TrueFalseTask_isCorrect_def correct_answer_entry_answer)
qed

text \<open>
  Claim C5 at a True/False/Not Given question whose key entry is \<^verbatim>\<open>True\<close> and whose
  recorded option is \<^verbatim>\<open>TRUE\<close>. The two agree when compared case-insensitively and
  trimmed, and \<^verbatim>\<open>calculateScore\<close> counts the question: the score is 1 of 1. TrueFalseTask,
  given the answers of the same key, compares with \<^verbatim>\<open>===\<close> and shows the question as
  incorrect.
\<close>

theorem TrueFalseTask_shows_incorrect_what_score_counts:
  "task_correctAnswers
      (key_json \<lparr>key_tasks = [Some \<lparr>answers = [Some \<lparr>answer = Some ''True'', entry_rest = []\<rparr>],
                                    task_rest = []\<rparr>], key_rest = []\<rparr>) 0
     = Inr (JArr (map (opt_json entry_json) [Some \<lparr>answer = Some ''True'', entry_rest = []\<rparr>]))
   \<and> TrueFalseTask_isCorrect True [''q-2'' \<mapsto> ''TRUE'']
      (JArr (map (opt_json entry_json) [Some \<lparr>answer = Some ''True'', entry_rest = []\<rparr>]))
      \<lparr>question_number = 2\<rparr> 0 = Inr False
   \<and> normal_form ''TRUE'' = normal_form ''True''
   \<and> calculateScore
       (Some \<lparr>tasks = [\<lparr>task_type = ''True/False/Not Given'',
                        task_key = Some ''true_false_not_given'', instruction = None,
                        questions = [\<lparr>question_number = 2\<rparr>]\<rparr>]\<rparr>)
       (key_json \<lparr>key_tasks = [Some \<lparr>answers = [Some \<lparr>answer = Some ''True'', entry_rest = []\<rparr>],
                                     task_rest = []\<rparr>], key_rest = []\<rparr>)
       [''q-2'' \<mapsto> ''TRUE'']
     = Inr \<lparr>score = None, correct = Some 1, total_n = 1\<rparr>"
proof (intro conjI)
  show "task_correctAnswers
      (key_json \<lparr>key_tasks = [Some \<lparr>answers = [Some \<lparr>answer = Some ''True'', entry_rest = []\<rparr>],
                                    task_rest = []\<rparr>], key_rest = []\<rparr>) 0
     = Inr (JArr (map (opt_json entry_json) [Some \<lparr>answer = Some ''True'', entry_rest = []\<rparr>]))"
    by (simp add: task_correctAnswers_def key_json_def task_json_def opt_json_def)
next
  show "TrueFalseTask_isCorrect True [''q-2'' \<mapsto> ''TRUE'']
      (JArr (map (opt_json entry_json) [Some \<lparr>answer = Some ''True'', entry_rest = []\<rparr>]))
      \<lparr>question_number = 2\<rparr> 0 = Inr False"
    by (simp add: TrueFalseTask_isCorrect_def correct_answer_def opt_json_def js_prop_entry_json
          not_nullish_entry_json currentAnswer_def qKey_2)
next
  show "normal_form ''TRUE'' = normal_form ''True''"
    by (simp add: normal_form_def js_string_defs)
next
  show "calculateScore
       (Some \<lparr>tasks = [\<lparr>task_type = ''True/False/Not Given'',
                        task_key = Some ''true_false_not_given'', instruction = None,
                        questions = [\<lparr>question_number = 2\<rparr>]\<rparr>]\<rparr>)
       (key_json \<lparr>key_tasks = [Some \<lparr>answers = [Some \<lparr>answer = Some ''True'', entry_rest = []\<rparr>],
                                     task_rest = []\<rparr>], key_rest = []\<rparr>)
       [''q-2'' \<mapsto> ''TRUE'']
     = Inr \<lparr>score = None, correct = Some 1, total_n = 1\<rparr>"
    by (simp add: calculateScore_key_json question_count_def all_questions_def
          answered_right_def submitted_def key_answer_def qKey_2 normal_form_def js_string_defs)
qed

lemma TrueFalseTask_click_stores_option:
  "TrueFalseTask_click t ev ua key = Some v
     \<Longrightarrow> ua key = Some v \<or> v \<in> set (TrueFalseTask_options t)"
  by (cases ev) (auto simp: TrueFalseTask_click_def handleAnswerChange_def split: if_splits)

lemma TrueFalseTask_clicks_store_options:
  "TrueFalseTask_clicks t evs ua key = Some v
     \<Longrightarrow> ua key = Some v \<or> v \<in> set (TrueFalseTask_options t)"
  unfolding TrueFalseTask_clicks_def
proof (induction evs arbitrary: ua)
  case Nil
  then show ?case by simp
next
  case (Cons ev evs)
  from Cons.prems have "fold (TrueFalseTask_click t) evs (TrueFalseTask_click t ev ua) key = Some v"
    by simp
  then have "TrueFalseTask_click t ev ua key = Some v \<or> v \<in> set (TrueFalseTask_options t)"
    by (rule Cons.IH)
  then show ?case
    using TrueFalseTask_click_stores_option [of t ev ua key v] by blast
qed

text \<open>
  Claim C6. Whatever the clicks on the buttons of a True/False/Not Given task, a value
  found afterwards under any key is the value that was there before or one of the labels
  \<^verbatim>\<open>YES\<close>, \<^verbatim>\<open>NO\<close>, \<^verbatim>\<open>NOT GIVEN\<close> (when the task key contains \<^verbatim>\<open>yes_no\<close> or the
  instruction contains \<^verbatim>\<open>yes\<close>) or \<^verbatim>\<open>TRUE\<close>, \<^verbatim>\<open>FALSE\<close>, \<^verbatim>\<open>NOT GIVEN\<close> (otherwise):
  the component stores nothing else.
\<close>

theorem TrueFalseTask_stores_only_options:
  "TrueFalseTask_clicks t evs ua key = Some v \<longrightarrow>
     ua key = Some v
     \<or> v \<in> (if isYesNo t then {''YES'', ''NO'', ''NOT GIVEN''}
             else {''TRUE'', ''FALSE'', ''NOT GIVEN''})"
proof
  assume "TrueFalseTask_clicks t evs ua key = Some v"
  then have "ua key = Some v \<or> v \<in> set (TrueFalseTask_options t)"
    by (rule TrueFalseTask_clicks_store_options)
  then show "ua key = Some v
     \<or> v \<in> (if isYesNo t then {''YES'', ''NO'', ''NOT GIVEN''}
             else {''TRUE'', ''FALSE'', ''NOT GIVEN''})"
    by (auto simp: TrueFalseTask_options_def split: if_splits)
qed

theorem TrueFalseTask_stores_only_options_witness:
  "TrueFalseTask_clicks
     \<lparr>task_type = ''Yes/No/Not Given'', task_key = Some ''yes_no_not_given'',
      instruction = None, questions = [\<lparr>question_number = 2\<rparr>, \<lparr>question_number = 3\<rparr>]\<rparr>
     [(False, 0, 0), (False, 1, 2), (False, 0, 1), (True, 1, 0)] Map.empty ''q-2'' = Some ''NO''
   \<and> isYesNo \<lparr>task_type = ''Yes/No/Not Given'', task_key = Some ''yes_no_not_given'',
      instruction = None, questions = [\<lparr>question_number = 2\<rparr>, \<lparr>question_number = 3\<rparr>]\<rparr>
   \<and> ''NO'' \<in> {''YES'', ''NO'', ''NOT GIVEN''}"
proof -
  let ?t = "\<lparr>task_type = ''Yes/No/Not Given'', task_key = Some ''yes_no_not_given'',
      instruction = None, questions = [\<lparr>question_number = 2\<rparr>, \<lparr>question_number = 3\<rparr>]\<rparr>"
  have yn: "isYesNo ?t"
    by (simp add: isYesNo_def js_includes_def sublist_code)
  have run: "TrueFalseTask_clicks ?t [(False, 0, 0), (False, 1, 2), (False, 0, 1), (True, 1, 0)]
               Map.empty ''q-2'' = Some ''NO''"
    by (simp add: TrueFalseTask_clicks_def TrueFalseTask_click_def TrueFalseTask_options_def yn
          handleAnswerChange_def qKey_2 qKey_3)
  from TrueFalseTask_stores_only_options
         [of ?t "[(False, 0, 0), (False, 1, 2), (False, 0, 1), (True, 1, 0)]" Map.empty "''q-2''" "''NO''"]
       run yn
  show ?thesis by simp
qed

section \<open>Polling the status and the default configuration\<close>

lemma pollStatus_progress:
  "progress (pollStatus r s) =
     (case r of
        None \<Rightarrow> progress s
      | Some st \<Rightarrow>
          if status st = ''failed'' then progress s
          else if status st = ''completed'' then 100
          else max (progress s) (case status_progress st of None \<Rightarrow> 0 | Some p \<Rightarrow> p))"
  by (simp add: pollStatus_def split: option.splits)

lemma pollStatus_progress_bounds:
  assumes "progress s \<le> 100" "progress_in_range r"
  shows "progress s \<le> progress (pollStatus r s) \<and> progress (pollStatus r s) \<le> 100"
  using assms
  by (auto simp: pollStatus_progress progress_in_range_def split: option.splits)

lemma first_poll_progress: "progress (first_poll r s) = progress (pollStatus r s)"
  by (simp add: first_poll_def)

lemma interval_polls_sorted:
  assumes "progress s \<le> 100" "\<forall>r\<in>set rs. progress_in_range r"
  shows "sorted (map progress (s # interval_polls rs s))"
  using assms
proof (induction rs arbitrary: s)
  case Nil
  then show ?case by simp
next
  case (Cons r rs)
  show ?case
  proof (cases "pollInterval s")
    case False
    then show ?thesis by simp
  next
    case True
    let ?s' = "pollStatus r s"
    from Cons.prems have b: "progress s \<le> progress ?s'" "progress ?s' \<le> 100"
      using pollStatus_progress_bounds [of s r] by simp_all
    from Cons.prems have "\<forall>r\<in>set rs. progress_in_range r" by simp
    with b(2) have "sorted (map progress (?s' # interval_polls rs ?s'))"
      by (rule Cons.IH)
    with b(1) True show ?thesis by auto
  qed
qed

lemma polling_sorted:
  assumes "progress s \<le> 100" "\<forall>r\<in>set rs. progress_in_range r"
  shows "sorted (map progress (s # polling rs s))"
proof (cases rs)
  case Nil
  then show ?thesis by simp
next
  case (Cons r rs')
  let ?s' = "first_poll r s"
  from assms Cons have b: "progress s \<le> progress ?s'" "progress ?s' \<le> 100"
    using pollStatus_progress_bounds [of s r] by (simp_all add: first_poll_progress)
  from assms Cons have "\<forall>r\<in>set rs'. progress_in_range r" by simp
  with b(2) have "sorted (map progress (?s' # interval_polls rs' ?s'))"
    by (rule interval_polls_sorted)
  with b(1) Cons show ?thesis by auto
qed

text \<open>
  Claim C2, as the code has it. When the server reports no progress above 100, the
  progress shown never decreases over the polls of one request, from any state that shows
  at most 100 (polling starts at 20). After a poll with a status other than \<^verbatim>\<open>failed\<close>
  and \<^verbatim>\<open>completed\<close> it is the maximum of the progress shown before and the progress
  polled, a missing progress counting as 0; a poll that sees \<^verbatim>\<open>completed\<close> sets it to 100,
  and one that sees \<^verbatim>\<open>failed\<close> leaves it as it is.
\<close>

theorem displayed_progress_never_decreases:
  "(progress s \<le> 100 \<and> (\<forall>r\<in>set rs. progress_in_range r)
      \<longrightarrow> sorted (map progress (s # polling rs s)))
   \<and> (status st \<noteq> ''failed'' \<and> status st \<noteq> ''completed''
      \<longrightarrow> progress (pollStatus (Some st) s)
          = max (progress s) (case status_progress st of None \<Rightarrow> 0 | Some p \<Rightarrow> p))
   \<and> (status st = ''completed'' \<longrightarrow> progress (pollStatus (Some st) s) = 100)
   \<and> (status st = ''failed'' \<longrightarrow> progress (pollStatus (Some st) s) = progress s)"
proof (intro conjI impI)
  assume "progress s \<le> 100 \<and> (\<forall>r\<in>set rs. progress_in_range r)"
  then show "sorted (map progress (s # polling rs s))"
    using polling_sorted [of s rs] by blast
qed (simp_all add: pollStatus_progress)

lemma polling_example:
  "map progress
     (polling [Some \<lparr>status = ''queued'', status_progress = None, message = None\<rparr>,
               Some \<lparr>status = ''preprocessing'', status_progress = Some 20, message = None\<rparr>,
               Some \<lparr>status = ''generating_questions'', status_progress = Some 70, message = None\<rparr>,
               Some \<lparr>status = ''finalizing'', status_progress = Some 60, message = None\<rparr>,
               Some \<lparr>status = ''completed'', status_progress = Some 100, message = None\<rparr>,
               Some \<lparr>status = ''completed'', status_progress = Some 100, message = None\<rparr>]
        polling_start)
   = [20, 20, 70, 70, 100]"
  by (simp add: polling_start_def first_poll_def pollStatus_def status_step_def)

theorem displayed_progress_never_decreases_witness:
  "progress polling_start \<le> 100
   \<and> sorted (map progress (polling_start #
       polling [Some \<lparr>status = ''queued'', status_progress = None, message = None\<rparr>,
               Some \<lparr>status = ''preprocessing'', status_progress = Some 20, message = None\<rparr>,
               Some \<lparr>status = ''generating_questions'', status_progress = Some 70, message = None\<rparr>,
               Some \<lparr>status = ''finalizing'', status_progress = Some 60, message = None\<rparr>,
               Some \<lparr>status = ''completed'', status_progress = Some 100, message = None\<rparr>,
               Some \<lparr>status = ''completed'', status_progress = Some 100, message = None\<rparr>]
        polling_start))
   \<and> progress (pollStatus (Some \<lparr>status = ''finalizing'', status_progress = Some 60, message = None\<rparr>)
         polling_start)
       = max (progress polling_start) 60"
  using displayed_progress_never_decreases
    [of polling_start
        "[Some \<lparr>status = ''queued'', status_progress = None, message = None\<rparr>,
               Some \<lparr>status = ''preprocessing'', status_progress = Some 20, message = None\<rparr>,
               Some \<lparr>status = ''generating_questions'', status_progress = Some 70, message = None\<rparr>,
               Some \<lparr>status = ''finalizing'', status_progress = Some 60, message = None\<rparr>,
               Some \<lparr>status = ''completed'', status_progress = Some 100, message = None\<rparr>,
               Some \<lparr>status = ''completed'', status_progress = Some 100, message = None\<rparr>]"
        "\<lparr>status = ''finalizing'', status_progress = Some 60, message = None\<rparr>"]
  by (simp add: progress_in_range_def polling_start_def)

text \<open>
  As stated the claim fails: a \<^verbatim>\<open>completed\<close> poll shows 100 whatever progress it carries
  (here 95, and 20 was shown before), and a progress of 150 followed by \<^verbatim>\<open>completed\<close>
  goes down to 100.
\<close>

theorem displayed_progress_counterexample:
  "progress (pollStatus (Some \<lparr>status = ''completed'', status_progress = Some 95, message = None\<rparr>)
      polling_start) = 100
   \<and> max (progress polling_start) 95 = 95
   \<and> map progress
       (polling [Some \<lparr>status = ''queued'', status_progress = Some 150, message = None\<rparr>,
                 Some \<lparr>status = ''completed'', status_progress = Some 100, message = None\<rparr>]
          polling_start)
     = [150, 100]"
  by (simp add: polling_start_def first_poll_def pollStatus_def status_step_def)

text \<open>
  What a poll that sees \<^verbatim>\<open>failed\<close> does to the state: no timer runs, the processing is
  over, and the error shown is the message of the server, or \<^verbatim>\<open>Generation failed\<close> when
  there is none or it is empty. Issued by the timer, such a poll is the last one.
\<close>

lemma pollStatus_failed:
  assumes "status st = ''failed''"
  shows "\<not> pollInterval (pollStatus (Some st) s)"
    and "\<not> isProcessing (pollStatus (Some st) s)"
    and "\<exists>m. error (pollStatus (Some st) s) = Some m \<and> m \<noteq> []"
    and "message st = Some m \<Longrightarrow> m \<noteq> [] \<Longrightarrow> error (pollStatus (Some st) s) = Some m"
    and "message st = None \<Longrightarrow> error (pollStatus (Some st) s) = Some ''Generation failed''"
  using assms by (auto simp: pollStatus_def split: option.splits)

lemma interval_poll_failed_stops:
  assumes "status st = ''failed''" "pollInterval s"
  shows "interval_polls (Some st # rs) s = [pollStatus (Some st) s]"
proof -
  have "\<not> pollInterval (pollStatus (Some st) s)"
    using assms(1) by (rule pollStatus_failed)
  then have "interval_polls rs (pollStatus (Some st) s) = []"
    by (cases rs) simp_all
  with assms(2) show ?thesis by simp
qed

text \<open>
  Claim C4 at the first poll of a request. \<^verbatim>\<open>handleProcess\<close> awaits the first
  \<^verbatim>\<open>pollStatus()\<close> before it starts the timer, so a first poll that sees \<^verbatim>\<open>failed\<close> finds
  no timer to clear, sets the error and ends the processing, and the timer is started
  after it: a second poll is issued, and only that one stops the polling.
\<close>

theorem first_poll_failed_keeps_polling:
  "map (\<lambda>s. (pollInterval s, isProcessing s, error s))
     (polling [Some \<lparr>status = ''failed'', status_progress = None, message = Some ''Out of credits''\<rparr>,
               Some \<lparr>status = ''failed'', status_progress = None, message = Some ''Out of credits''\<rparr>,
               Some \<lparr>status = ''failed'', status_progress = None, message = Some ''Out of credits''\<rparr>]
        polling_start)
   = [(True, False, Some ''Out of credits''), (False, False, Some ''Out of credits'')]"
  by (simp add: polling_start_def first_poll_def pollStatus_def)

text \<open>
  Claim C7. With the configuration as the page creates it and ExamConfig mounts it, the
  request \<^verbatim>\<open>handleProcess\<close> sends, whenever it sends one, has passage type 1, 14
  questions and 3 question types; 14 is the sum of the default split 5-4-5.
\<close>

theorem default_generation_request:
  "handleProcess_request has_file url created (ExamConfig_mount initial_examConfig)
     = (if (has_file \<or> url \<noteq> []) \<and> created
        then Some \<lparr>passage_type = 1, total_questions = 14, num_question_types = 3\<rparr>
        else None)
   \<and> total_questions (generate_body (ExamConfig_mount initial_examConfig)) = 5 + 4 + 5"
  by (simp add: handleProcess_request_def ExamConfig_mount_def initial_examConfig_def
        generate_body_def)

theorem default_generation_request_witness:
  "handleProcess_request True '''' True (ExamConfig_mount initial_examConfig)
     = Some \<lparr>passage_type = 1, total_questions = 14, num_question_types = 3\<rparr>"
  using default_generation_request [of True "''''" True]
  by simp

section \<open>Only PDF files are forwarded\<close>

text \<open>
  Claim C9. \<^verbatim>\<open>handleDrop\<close> and \<^verbatim>\<open>handleFileChange\<close> forward nothing, or exactly the first
  file of the event, and that only when its type is \<^verbatim>\<open>application/pdf\<close>. For a first file
  of any other type nothing is forwarded and the selection stays as it was (a drop only
  ends the drag highlight). A PDF, with the component enabled, is selected and forwarded.
\<close>

theorem upload_forwards_only_pdf:
  "(forwarded (snd (handleDrop disabled files s)) = []
      \<or> (\<exists>f rest. files = f # rest \<and> file_type f = ''application/pdf'' \<and> \<not> disabled
            \<and> forwarded (snd (handleDrop disabled files s)) = [(Some f, '''', File_method)]))
   \<and> (forwarded (snd (handleFileChange disabled files s)) = []
      \<or> (\<exists>f rest. files = f # rest \<and> file_type f = ''application/pdf'' \<and> \<not> disabled
            \<and> forwarded (snd (handleFileChange disabled files s)) = [(Some f, '''', File_method)]))
   \<and> (file_type f \<noteq> ''application/pdf'' \<longrightarrow>
        forwarded (snd (handleDrop disabled (f # rest) s)) = []
        \<and> fst (handleDrop disabled (f # rest) s) = (if disabled then s else s\<lparr>dragActive := False\<rparr>)
        \<and> forwarded (snd (handleFileChange disabled (f # rest) s)) = []
        \<and> fst (handleFileChange disabled (f # rest) s) = s)
   \<and> (file_type f = ''application/pdf'' \<and> \<not> disabled \<longrightarrow>
        forwarded (snd (handleDrop disabled (f # rest) s)) = [(Some f, '''', File_method)]
        \<and> file_selected (fst (handleDrop disabled (f # rest) s)) = Some f
        \<and> forwarded (snd (handleFileChange disabled (f # rest) s)) = [(Some f, '''', File_method)]
        \<and> file_selected (fst (handleFileChange disabled (f # rest) s)) = Some f)"
  by (cases files) (simp_all add: handleDrop_def handleFileChange_def)

theorem upload_forwards_only_pdf_witness:
  "file_type \<lparr>file_name = ''notes.txt'', file_type = ''text/plain'', file_size = 12\<rparr>
     \<noteq> ''application/pdf''
   \<and> forwarded (snd (handleDrop False
        [\<lparr>file_name = ''notes.txt'', file_type = ''text/plain'', file_size = 12\<rparr>,
         \<lparr>file_name = ''paper.pdf'', file_type = ''application/pdf'', file_size = 2048\<rparr>]
        \<lparr>dragActive = True, file_selected = None, fileUrl = '''', uploadMethod = File_method\<rparr>)) = []
   \<and> file_selected (fst (handleDrop False
        [\<lparr>file_name = ''notes.txt'', file_type = ''text/plain'', file_size = 12\<rparr>,
         \<lparr>file_name = ''paper.pdf'', file_type = ''application/pdf'', file_size = 2048\<rparr>]
        \<lparr>dragActive = True, file_selected = None, fileUrl = '''', uploadMethod = File_method\<rparr>)) = None"
  using upload_forwards_only_pdf
    [of False "[\<lparr>file_name = ''notes.txt'', file_type = ''text/plain'', file_size = 12\<rparr>,
         \<lparr>file_name = ''paper.pdf'', file_type = ''application/pdf'', file_size = 2048\<rparr>]"
        "\<lparr>dragActive = True, file_selected = None, fileUrl = '''', uploadMethod = File_method\<rparr>"
        "\<lparr>file_name = ''notes.txt'', file_type = ''text/plain'', file_size = 12\<rparr>"
        "[\<lparr>file_name = ''paper.pdf'', file_type = ''application/pdf'', file_size = 2048\<rparr>]"]
  by simp

section \<open>Deleting a session from the list\<close>

lemma length_filter_unique:
  "distinct (map f xs) \<Longrightarrow> a \<in> f ` set xs \<Longrightarrow> length (filter (\<lambda>x. f x = a) xs) = 1"
proof (induction xs)
  case Nil
  then show ?case by simp
next
  case (Cons x xs)
  show ?case
  proof (cases "f x = a")
    case True
    with Cons.prems have "a \<notin> f ` set xs" by auto
    then have "filter (\<lambda>x. f x = a) xs = []"
      by (auto simp: filter_empty_conv)
    with True show ?thesis by simp
  next
    case False
    with Cons show ?thesis by auto
  qed
qed

text \<open>
  A delete whose handler was created by the render of the list that is still shown when
  the call returns: no session with the given id is left, the other sessions are all
  there in the order they had, and with distinct ids the list is shorter by exactly one.
  When the call fails, or the user does not confirm, the list shown stays as it is,
  whichever list the handler has captured.
\<close>

lemma handleDelete_on_current_list:
  "(\<forall>s\<in>set (fst (handleDelete True True sid sessions sessions)). session_id s \<noteq> sid)
   \<and> filter (\<lambda>s. session_id s \<noteq> sid) (fst (handleDelete True True sid sessions sessions))
       = filter (\<lambda>s. session_id s \<noteq> sid) sessions
   \<and> subseq (fst (handleDelete True True sid sessions sessions)) sessions
   \<and> (distinct (map session_id sessions) \<and> sid \<in> session_id ` set sessions
        \<longrightarrow> Suc (length (fst (handleDelete True True sid sessions sessions))) = length sessions)
   \<and> fst (handleDelete True False sid captured displayed) = displayed
   \<and> fst (handleDelete False deleted sid captured displayed) = displayed"
proof (intro conjI impI)
  assume a: "distinct (map session_id sessions) \<and> sid \<in> session_id ` set sessions"
  have "length (filter (\<lambda>s. session_id s = sid) sessions)
          + length (filter (\<lambda>s. session_id s \<noteq> sid) sessions) = length sessions"
    using sum_length_filter_compl [of "\<lambda>s. session_id s = sid" sessions] by simp
  moreover have "length (filter (\<lambda>s. session_id s = sid) sessions) = 1"
    using a length_filter_unique [of session_id sessions sid] by blast
  ultimately show "Suc (length (fst (handleDelete True True sid sessions sessions))) = length sessions"
    by (simp add: handleDelete_def)
qed (simp_all add: handleDelete_def)

text \<open>
  Claim C10 with two deletes in flight. The list shows the sessions a, b and c; the user
  deletes a and, before the server has answered, deletes b: both handlers have captured
  the list of three. When the first call returns the list shows b and c. When the second
  returns, \<^verbatim>\<open>setSessions(sessions.filter(s => s.session_id !== id))\<close> filters the captured
  list and the list shows a and c: b is gone, and a, deleted on the server, is back. A
  successful delete has not left every other session of the displayed list unchanged.
\<close>

theorem handleDelete_overlapping_restores_session:
  "fst (handleDelete True True ''a''
      [\<lparr>session_id = ''a'', filename = ''one.pdf'', has_exam = True, word_count = 900\<rparr>,
       \<lparr>session_id = ''b'', filename = ''two.pdf'', has_exam = False, word_count = 700\<rparr>,
       \<lparr>session_id = ''c'', filename = ''three.pdf'', has_exam = True, word_count = 800\<rparr>]
      [\<lparr>session_id = ''a'', filename = ''one.pdf'', has_exam = True, word_count = 900\<rparr>,
       \<lparr>session_id = ''b'', filename = ''two.pdf'', has_exam = False, word_count = 700\<rparr>,
       \<lparr>session_id = ''c'', filename = ''three.pdf'', has_exam = True, word_count = 800\<rparr>])
     = [\<lparr>session_id = ''b'', filename = ''two.pdf'', has_exam = False, word_count = 700\<rparr>,
        \<lparr>session_id = ''c'', filename = ''three.pdf'', has_exam = True, word_count = 800\<rparr>]
   \<and> fst (handleDelete True True ''b''
      [\<lparr>session_id = ''a'', filename = ''one.pdf'', has_exam = True, word_count = 900\<rparr>,
       \<lparr>session_id = ''b'', filename = ''two.pdf'', has_exam = False, word_count = 700\<rparr>,
       \<lparr>session_id = ''c'', filename = ''three.pdf'', has_exam = True, word_count = 800\<rparr>]
      [\<lparr>session_id = ''b'', filename = ''two.pdf'', has_exam = False, word_count = 700\<rparr>,
       \<lparr>session_id = ''c'', filename = ''three.pdf'', has_exam = True, word_count = 800\<rparr>])
     = [\<lparr>session_id = ''a'', filename = ''one.pdf'', has_exam = True, word_count = 900\<rparr>,
        \<lparr>session_id = ''c'', filename = ''three.pdf'', has_exam = True, word_count = 800\<rparr>]"
  by (simp add: handleDelete_def)

section \<open>At most one active job for a session\<close>

lemma active_jobs_append:
  "active_jobs sid (xs @ ys) = active_jobs sid xs @ active_jobs sid ys"
  by (simp add: active_jobs_def)

lemma terminal_next_stage: "terminal st \<Longrightarrow> terminal (next_stage st)"
  by (cases st) (simp_all add: terminal_def)

lemma length_active_jobs_map_le:
  assumes "\<And>j. job_session (g j) = job_session j"
    and "\<And>j. terminal (job_stage j) \<Longrightarrow> terminal (job_stage (g j))"
  shows "length (active_jobs sid (map g jobs)) \<le> length (active_jobs sid jobs)"
proof (induction jobs)
  case Nil
  then show ?case by simp
next
  case (Cons j jobs)
  then show ?case
    using assms(1) [of j] assms(2) [of j]
    by (auto simp: active_jobs_def)
qed

lemma length_active_jobs_advance:
  "length (active_jobs sid (advance_job sid' jobs)) \<le> length (active_jobs sid jobs)"
  unfolding advance_job_def
  by (rule length_active_jobs_map_le) (auto simp: terminal_next_stage)

lemma length_active_jobs_fail:
  "length (active_jobs sid (fail_job sid' jobs)) \<le> length (active_jobs sid jobs)"
  unfolding fail_job_def
  by (rule length_active_jobs_map_le) (auto simp: terminal_def)

lemma length_active_jobs_request:
  "length (active_jobs sid jobs) \<le> Suc 0
     \<Longrightarrow> length (active_jobs sid (snd (request_generation sid' jobs))) \<le> Suc 0"
  by (auto simp: request_generation_def active_jobs_append)
     (auto simp: active_jobs_def)

lemma length_active_jobs_step:
  "length (active_jobs sid jobs) \<le> Suc 0 \<Longrightarrow> length (active_jobs sid (job_step ev jobs)) \<le> Suc 0"
proof (cases ev)
  case (Request x)
  assume "length (active_jobs sid jobs) \<le> Suc 0"
  with Request show ?thesis by (simp add: length_active_jobs_request)
next
  case (Advance x)
  assume "length (active_jobs sid jobs) \<le> Suc 0"
  with Advance length_active_jobs_advance [of sid x jobs] show ?thesis by simp
next
  case (Fail x)
  assume "length (active_jobs sid jobs) \<le> Suc 0"
  with Fail length_active_jobs_fail [of sid x jobs] show ?thesis by simp
qed

lemma length_active_jobs_run:
  "length (active_jobs sid jobs) \<le> Suc 0 \<Longrightarrow> length (active_jobs sid (run_events evs jobs)) \<le> Suc 0"
  unfolding run_events_def
  by (induction evs arbitrary: jobs) (simp_all add: length_active_jobs_step)

text \<open>
  Claim C3, on the jobs as the specification describes them. A generation request for a
  session that has a job in a non-terminal stage is answered with \<^verbatim>\<open>JobAlreadyRunning\<close>
  and leaves the jobs as they are; and whatever requests, stage changes and failures
  happen, starting with no job, a session never has more than one active job.
\<close>

theorem second_request_rejected:
  "(active_jobs sid jobs \<noteq> [] \<longrightarrow> request_generation sid jobs = (Inl JobAlreadyRunning, jobs))
   \<and> length (active_jobs sid (run_events evs [])) \<le> 1"
proof (intro conjI impI)
  assume "active_jobs sid jobs \<noteq> []"
  then show "request_generation sid jobs = (Inl JobAlreadyRunning, jobs)"
    by (simp add: request_generation_def)
next
  have "length (active_jobs sid []) \<le> Suc 0"
    by (simp add: active_jobs_def)
  then have "length (active_jobs sid (run_events evs [])) \<le> Suc 0"
    by (rule length_active_jobs_run)
  then show "length (active_jobs sid (run_events evs [])) \<le> 1"
    by simp
qed

theorem second_request_rejected_witness:
  "active_jobs ''s1'' [\<lparr>job_session = ''s1'', job_stage = Generating_passage\<rparr>] \<noteq> []
   \<and> request_generation ''s1'' [\<lparr>job_session = ''s1'', job_stage = Generating_passage\<rparr>]
       = (Inl JobAlreadyRunning, [\<lparr>job_session = ''s1'', job_stage = Generating_passage\<rparr>])
   \<and> run_events [Request ''s1'', Advance ''s1'', Request ''s1'', Request ''s2''] []
       = [\<lparr>job_session = ''s1'', job_stage = Preprocessing\<rparr>,
          \<lparr>job_session = ''s2'', job_stage = Queued\<rparr>]
   \<and> length (active_jobs ''s1''
        (run_events [Request ''s1'', Advance ''s1'', Request ''s1'', Request ''s2''] [])) \<le> 1"
  using second_request_rejected
    [of "''s1''" "[\<lparr>job_session = ''s1'', job_stage = Generating_passage\<rparr>]"
        "[Request ''s1'', Advance ''s1'', Request ''s1'', Request ''s2'']"]
  by (simp add: active_jobs_def terminal_def run_events_def request_generation_def
        advance_job_def)

end
